theory Spec2Isabelle
  imports Complex_Main
begin

section \<open>Python text primitives used by music\_helper.py\<close>

text \<open>
  Python text is modelled as \<open>string\<close>. The characters beyond ASCII that occur in the
  message literals of the source are written as their UTF-8 bytes. \<open>str.strip\<close>,
  \<open>str.lower\<close> and \<open>float\<close> are modelled on the ASCII characters: a byte above 127 is
  neither white space, nor a digit, nor a letter that lower-cases into one of the
  duration names.
\<close>

datatype exn =
    ValueError string
  | TypeError string
  | OverflowError string
  | FileNotFoundError string
  | LibraryError string

text \<open>\<open>str(e)\<close>: the text of an exception.\<close>

fun str_of :: "exn \<Rightarrow> string" where
  "str_of (ValueError m) = m"
| "str_of (TypeError m) = m"
| "str_of (OverflowError m) = m"
| "str_of (FileNotFoundError m) = m"
| "str_of (LibraryError m) = m"

text \<open>\<open>s.split(c)\<close> for a one-character separator: never the empty list.\<close>

fun split_on :: "char \<Rightarrow> string \<Rightarrow> string list" where
  "split_on c [] = [[]]"
| "split_on c (x # xs) =
     (if x = c then [] # split_on c xs
      else (case split_on c xs of
              w # ws \<Rightarrow> (x # w) # ws
            | [] \<Rightarrow> [[x]]))"

definition is_space :: "char \<Rightarrow> bool" where
  "is_space c = (let n = (of_char c :: nat) in (9 \<le> n \<and> n \<le> 13) \<or> (28 \<le> n \<and> n \<le> 32))"

definition strip :: "string \<Rightarrow> string" where
  "strip s = rev (dropWhile is_space (rev (dropWhile is_space s)))"

definition lower_char :: "char \<Rightarrow> char" where
  "lower_char c =
     (let n = (of_char c :: nat) in if 65 \<le> n \<and> n \<le> 90 then char_of (n + 32) else c)"

definition lower :: "string \<Rightarrow> string" where
  "lower s = map lower_char s"

definition replace_char :: "char \<Rightarrow> char \<Rightarrow> string \<Rightarrow> string" where
  "replace_char a b s = map (\<lambda>c. if c = a then b else c) s"

text \<open>\<open>sep.join(xs)\<close>.\<close>

fun join :: "string \<Rightarrow> string list \<Rightarrow> string" where
  "join sep [] = []"
| "join sep [x] = x"
| "join sep (x # y # ys) = x @ sep @ join sep (y # ys)"

text \<open>\<open>a in b\<close> on text: \<open>sub\<close> occurs in \<open>s\<close> as a contiguous run.\<close>

fun starts_with :: "string \<Rightarrow> string \<Rightarrow> bool" where
  "starts_with s [] = True"
| "starts_with [] (p # ps) = False"
| "starts_with (c # cs) (p # ps) = (c = p \<and> starts_with cs ps)"

fun contains :: "string \<Rightarrow> string \<Rightarrow> bool" where
  "contains [] sub = (sub = [])"
| "contains (c # cs) sub = (starts_with (c # cs) sub \<or> contains cs sub)"

text \<open>\<open>str(n)\<close> for an integer.\<close>

definition digit_char :: "nat \<Rightarrow> char" where
  "digit_char d = char_of (48 + d)"

fun str_nat :: "nat \<Rightarrow> string" where
  "str_nat n = (if n < 10 then [digit_char n] else str_nat (n div 10) @ [digit_char (n mod 10)])"

declare str_nat.simps [simp del]

definition str_int :: "int \<Rightarrow> string" where
  "str_int i = (if i < 0 then CHR ''-'' # str_nat (nat (- i)) else str_nat (nat i))"

text \<open>
  \<open>repr(s)\<close> of a text: single quotes unless the text holds a single quote and no double
  quote; the quote in use and the backslash are escaped, tab, line feed and carriage
  return are written \<open>\t\<close>, \<open>\n\<close>, \<open>\r\<close>, any other control character as \<open>\xNN\<close>.
\<close>

definition hex_char :: "nat \<Rightarrow> char" where
  "hex_char d = (if d < 10 then char_of (48 + d) else char_of (87 + d))"

definition repr_char :: "char \<Rightarrow> char \<Rightarrow> string" where
  "repr_char q c =
     (let n = (of_char c :: nat) in
      if c = q \<or> c = CHR 0x5C then [CHR 0x5C, c]
      else if n = 9 then [CHR 0x5C, CHR ''t'']
      else if n = 10 then [CHR 0x5C, CHR ''n'']
      else if n = 13 then [CHR 0x5C, CHR ''r'']
      else if n < 32 \<or> n = 127 then [CHR 0x5C, CHR ''x'', hex_char (n div 16), hex_char (n mod 16)]
      else [c])"

definition repr :: "string \<Rightarrow> string" where
  "repr s =
     (let q = (if CHR 0x27 \<in> set s \<and> CHR 0x22 \<notin> set s then CHR 0x22 else CHR 0x27)
      in [q] @ concat (map (repr_char q) s) @ [q])"

subsection \<open>The builtin float\<close>

text \<open>
  \<open>float(s)\<close> accepts, after stripping white space, an optional sign followed by
  \<open>inf\<close>, \<open>infinity\<close> or \<open>nan\<close> in any case, or by a decimal number: digit groups in
  which single underscores may separate digits, an optional point and an optional
  exponent. The value of a decimal number is kept as the exact rational the literal
  denotes; rounding to binary64 is outside the model.
\<close>

datatype pyfloat = Finite rat | Infinity bool | NaN

definition is_digit :: "char \<Rightarrow> bool" where
  "is_digit c = (let n = (of_char c :: nat) in 48 \<le> n \<and> n \<le> 57)"

definition digit_val :: "char \<Rightarrow> nat" where
  "digit_val c = of_char c - 48"

text \<open>
  \<open>digits_from a k s\<close> continues a digit group whose value so far is \<open>a\<close>, read from
  \<open>k\<close> digits: it returns the value, the number of digits and the rest of the text.
\<close>

fun digits_from :: "nat \<Rightarrow> nat \<Rightarrow> string \<Rightarrow> nat \<times> nat \<times> string" where
  "digits_from a k [] = (a, k, [])"
| "digits_from a k [c] =
     (if is_digit c then (10 * a + digit_val c, Suc k, []) else (a, k, [c]))"
| "digits_from a k (c # d # ds) =
     (if is_digit c then digits_from (10 * a + digit_val c) (Suc k) (d # ds)
      else if c = CHR ''_'' \<and> is_digit d then digits_from (10 * a + digit_val d) (Suc k) ds
      else (a, k, c # d # ds))"

definition digitpart :: "string \<Rightarrow> (nat \<times> nat \<times> string) option" where
  "digitpart s =
     (case s of
        [] \<Rightarrow> None
      | c # cs \<Rightarrow> if is_digit c then Some (digits_from (digit_val c) 1 cs) else None)"

text \<open>The mantissa: \<open>[digitpart] "." digitpart | digitpart ["."]\<close>.\<close>

definition mantissa :: "string \<Rightarrow> (rat \<times> string) option" where
  "mantissa s =
     (case digitpart s of
        Some (ip, _, r) \<Rightarrow>
          (case r of
             c # r' \<Rightarrow>
               if c = CHR ''.'' then
                 (case digitpart r' of
                    Some (fp, k, r'') \<Rightarrow> Some (of_nat ip + of_nat fp / 10 ^ k, r'')
                  | None \<Rightarrow> Some (of_nat ip, r'))
               else Some (of_nat ip, r)
           | [] \<Rightarrow> Some (of_nat ip, []))
      | None \<Rightarrow>
          (case s of
             c # r' \<Rightarrow>
               if c = CHR ''.'' then
                 (case digitpart r' of
                    Some (fp, k, r'') \<Rightarrow> Some (of_nat fp / 10 ^ k, r'')
                  | None \<Rightarrow> None)
               else None
           | [] \<Rightarrow> None))"

text \<open>The exponent: nothing, or \<open>e\<close> or \<open>E\<close>, an optional sign and a digit group, to the end.\<close>

definition exponent :: "string \<Rightarrow> int option" where
  "exponent s =
     (case s of
        [] \<Rightarrow> Some 0
      | c # r \<Rightarrow>
          if c = CHR ''e'' \<or> c = CHR ''E'' then
            (let (neg, r') =
               (case r of
                  [] \<Rightarrow> (False, r)
                | x # xs \<Rightarrow> if x = CHR ''-'' then (True, xs) else if x = CHR ''+'' then (False, xs) else (False, r))
             in case digitpart r' of
                  Some (v, _, []) \<Rightarrow> Some (if neg then - int v else int v)
                | _ \<Rightarrow> None)
          else None)"

definition scale10 :: "rat \<Rightarrow> int \<Rightarrow> rat" where
  "scale10 m e = (if e < 0 then m / 10 ^ nat (- e) else m * 10 ^ nat e)"

definition absfloat :: "string \<Rightarrow> pyfloat option" where
  "absfloat s =
     (if lower s = ''inf'' \<or> lower s = ''infinity'' then Some (Infinity False)
      else if lower s = ''nan'' then Some NaN
      else (case mantissa s of
              None \<Rightarrow> None
            | Some (m, r) \<Rightarrow>
                (case exponent r of None \<Rightarrow> None | Some e \<Rightarrow> Some (Finite (scale10 m e)))))"

definition negate :: "pyfloat \<Rightarrow> pyfloat" where
  "negate v = (case v of Finite r \<Rightarrow> Finite (- r) | Infinity b \<Rightarrow> Infinity (\<not> b) | NaN \<Rightarrow> NaN)"

definition py_float :: "string \<Rightarrow> exn + pyfloat" where
  "py_float s =
     (let t = strip s;
          r = (case t of
                 [] \<Rightarrow> None
               | c # cs \<Rightarrow>
                   if c = CHR ''-'' then map_option negate (absfloat cs)
                   else if c = CHR ''+'' then absfloat cs
                   else absfloat t)
      in case r of
           None \<Rightarrow> Inl (ValueError (''could not convert string to float: '' @ repr s))
         | Some v \<Rightarrow> Inr v)"

section \<open>The notation library's object model\<close>

text \<open>
  The pipeline reads and builds objects of the third-party notation library: pitches,
  durations, notes and chords. A pitch has a step, an optional accidental and an optional
  octave; a duration has a quarter length and a type name; \<open>stream.notes\<close> iterates
  over notes (\<open>isNote\<close>) and chords (\<open>isChord\<close>).
\<close>

datatype step = C | D | E | F | G | A | B

datatype accidental =
    Natural | Sharp | DoubleSharp | TripleSharp | QuadrupleSharp
  | Flat | DoubleFlat | TripleFlat | QuadrupleFlat

record pitch =
  step :: step
  accidental :: "accidental option"
  octave :: "int option"

record duration =
  quarterLength :: rat
  dtype :: string

datatype element =
    Note pitch duration
  | Chord "pitch list" duration

fun step_name :: "step \<Rightarrow> string" where
  "step_name C = ''C''"
| "step_name D = ''D''"
| "step_name E = ''E''"
| "step_name F = ''F''"
| "step_name G = ''G''"
| "step_name A = ''A''"
| "step_name B = ''B''"

text \<open>\<open>accidental.modifier\<close>: sharps are \<open>#\<close>, flats are \<open>-\<close>.\<close>

fun modifier :: "accidental \<Rightarrow> string" where
  "modifier Natural = []"
| "modifier Sharp = ''#''"
| "modifier DoubleSharp = ''##''"
| "modifier TripleSharp = ''###''"
| "modifier QuadrupleSharp = ''####''"
| "modifier Flat = ''-''"
| "modifier DoubleFlat = ''--''"
| "modifier TripleFlat = ''---''"
| "modifier QuadrupleFlat = ''----''"

fun alter :: "accidental option \<Rightarrow> int" where
  "alter None = 0"
| "alter (Some Natural) = 0"
| "alter (Some Sharp) = 1"
| "alter (Some DoubleSharp) = 2"
| "alter (Some TripleSharp) = 3"
| "alter (Some QuadrupleSharp) = 4"
| "alter (Some Flat) = - 1"
| "alter (Some DoubleFlat) = - 2"
| "alter (Some TripleFlat) = - 3"
| "alter (Some QuadrupleFlat) = - 4"

definition name_of :: "pitch \<Rightarrow> string" where
  "name_of p =
     step_name (step p) @ (case accidental p of None \<Rightarrow> [] | Some a \<Rightarrow> modifier a)"

definition nameWithOctave :: "pitch \<Rightarrow> string" where
  "nameWithOctave p =
     (case octave p of None \<Rightarrow> name_of p | Some k \<Rightarrow> name_of p @ str_int k)"

fun step_num :: "step \<Rightarrow> int" where
  "step_num C = 1"
| "step_num D = 2"
| "step_num E = 3"
| "step_num F = 4"
| "step_num G = 5"
| "step_num A = 6"
| "step_num B = 7"

text \<open>\<open>pitch.diatonicNoteNum\<close>: C4 is 29, B4 is 35; a pitch without octave counts in octave 4.\<close>

definition diatonicNoteNum :: "pitch \<Rightarrow> int" where
  "diatonicNoteNum p = step_num (step p) + 7 * (case octave p of None \<Rightarrow> 4 | Some k \<Rightarrow> k)"

text \<open>
  \<open>pitch.getLowerEnharmonic()\<close>: the library transposes the pitch down a diminished
  second, that is one step down with the accidental raised by the distance between the
  two steps, so that the sounding pitch is unchanged (C sharp 3 gives B double sharp 2);
  an alteration beyond four sharps has no accidental in the library and raises.
\<close>

fun step_below :: "step \<Rightarrow> step \<times> int" where
  "step_below C = (B, 1)"
| "step_below D = (C, 2)"
| "step_below E = (D, 2)"
| "step_below F = (E, 1)"
| "step_below G = (F, 2)"
| "step_below A = (G, 2)"
| "step_below B = (A, 2)"

definition accidental_of_alter :: "int \<Rightarrow> exn + accidental option" where
  "accidental_of_alter a =
     (if a = 0 then Inr None
      else if a = 1 then Inr (Some Sharp)
      else if a = 2 then Inr (Some DoubleSharp)
      else if a = 3 then Inr (Some TripleSharp)
      else if a = 4 then Inr (Some QuadrupleSharp)
      else if a = - 1 then Inr (Some Flat)
      else if a = - 2 then Inr (Some DoubleFlat)
      else if a = - 3 then Inr (Some TripleFlat)
      else if a = - 4 then Inr (Some QuadrupleFlat)
      else Inl (LibraryError ''not a supported accidental type''))"

definition getLowerEnharmonic :: "pitch \<Rightarrow> exn + pitch" where
  "getLowerEnharmonic p =
     (let (s, d) = step_below (step p) in
      case accidental_of_alter (alter (accidental p) + d) of
        Inl e \<Rightarrow> Inl e
      | Inr a \<Rightarrow>
          Inr \<lparr>step = s, accidental = a,
               octave = (if step p = C then map_option (\<lambda>k. k - 1) (octave p) else octave p)\<rparr>)"

text \<open>
  What the pipeline asks of the library and the repository does not fix is a parameter
  of the model: the note constructor \<open>music21.note.Note(name)\<close>, the type name the
  library derives for a quarter length, and the export \<open>stream.write("musicxml", fp)\<close>,
  given as the notes a later \<open>converter.parse(fp)\<close> reads back, or the exception raised.
\<close>

record music21 =
  Note_init :: "string \<Rightarrow> exn + pitch"
  duration_type :: "rat \<Rightarrow> string"
  stream_write :: "string \<Rightarrow> element list \<Rightarrow> exn + element list"

text \<open>
  \<open>n.duration.quarterLength = v\<close>: the library stores a finite value as the quarter
  length; infinity and not-a-number have no integer ratio and raise.
\<close>

definition set_quarterLength :: "music21 \<Rightarrow> pyfloat \<Rightarrow> exn + duration" where
  "set_quarterLength L v =
     (case v of
        Finite r \<Rightarrow> Inr \<lparr>quarterLength = r, dtype = duration_type L r\<rparr>
      | Infinity _ \<Rightarrow> Inl (OverflowError ''cannot convert Infinity to integer ratio'')
      | NaN \<Rightarrow> Inl (ValueError ''cannot convert NaN to integer ratio''))"

section \<open>The files\<close>

text \<open>
  The file system maps a path to what the file holds: a notation document (the notes and
  chords \<open>score.flatten().notes\<close> gives after parsing), an audio sample, a picture, or
  anything else.
\<close>

datatype content = Score "element list" | Sample | Picture | Other

type_synonym files = "string \<rightharpoonup> content"

definition exists :: "files \<Rightarrow> string \<Rightarrow> bool" where
  "exists fs p = (fs p \<noteq> None)"

text \<open>\<open>music21.converter.parse(path)\<close> followed by \<open>.flatten().notes\<close>.\<close>

definition parse_notes :: "files \<Rightarrow> string \<Rightarrow> exn + element list" where
  "parse_notes fs p =
     (case fs p of
        Some (Score els) \<Rightarrow> Inr els
      | Some _ \<Rightarrow> Inl (LibraryError ''ConverterFileException'')
      | None \<Rightarrow> Inl (LibraryError ''ConverterException''))"

section \<open>get\_notes\_from\_xml: the textual note summary\<close>

text \<open>
  The loop of lines 85 to 91. For a chord the source evaluates
  \<open>n.pitches + ":" + n.duration.type\<close>, a tuple plus a text, which raises TypeError.
\<close>

fun notes_list :: "element list \<Rightarrow> exn + string list" where
  "notes_list [] = Inr []"
| "notes_list (Note p d # ns) =
     (case notes_list ns of
        Inl e \<Rightarrow> Inl e
      | Inr rest \<Rightarrow> Inr ((nameWithOctave p @ '':'' @ dtype d) # rest))"
| "notes_list (Chord ps d # ns) =
     Inl (TypeError (''can only concatenate tuple (not '' @ [CHR 0x22] @ ''str'' @ [CHR 0x22] @ '') to tuple''))"

definition found_prefix :: string where
  "found_prefix = [CHR 0xF0, CHR 0x9F, CHR 0x8E, CHR 0x89] @ '' Found the payload: ''"

definition notes_header :: string where
  "notes_header =
     [CHR 0x0A] @ ''--- '' @ [CHR 0xF0, CHR 0x9F, CHR 0x8E, CHR 0xBC] @ '' NOTES DETECTED ---''"

definition not_found_message :: "string \<Rightarrow> string" where
  "not_found_message file_path =
     [CHR 0xF0, CHR 0x9F, CHR 0xA4, CHR 0x94] @ '' The tool finished, but I can'' @ [CHR 0x27]
       @ ''t find '' @ [CHR 0x27] @ file_path @ [CHR 0x27] @ '' in the folder.''"

definition get_notes_from_xml :: "files \<Rightarrow> string \<Rightarrow> exn + string" where
  "get_notes_from_xml fs file_path =
     (if exists fs file_path then
        (case parse_notes fs file_path of
           Inl e \<Rightarrow> Inl e
         | Inr notes \<Rightarrow>
             (case notes_list notes of
                Inl e \<Rightarrow> Inl e
              | Inr nl \<Rightarrow>
                  Inr (found_prefix @ file_path @ notes_header @ '':'' @ join '', '' nl)))
      else Inr (not_found_message file_path))"

section \<open>update\_musicxml: decoding a correction text\<close>

definition duration_map :: "string \<rightharpoonup> rat" where
  "duration_map =
     map_of [(''16th'', 1 / 4), (''eighth'', 1 / 2), (''quarter'', 1), (''half'', 2), (''whole'', 4)]"

text \<open>Lines 280 to 283: the duration of an entry, from the table or from \<open>float\<close>.\<close>

definition entry_duration :: "string \<Rightarrow> exn + pyfloat" where
  "entry_duration dur_val =
     (case duration_map (lower (strip dur_val)) of
        Some q \<Rightarrow> Inr (Finite q)
      | None \<Rightarrow> py_float dur_val)"

text \<open>
  Lines 278 to 288, one entry: unpack the split on the colon, resolve the duration,
  build the note, set its quarter length.
\<close>

definition decode_entry :: "music21 \<Rightarrow> string \<Rightarrow> exn + element" where
  "decode_entry L entry =
     (case split_on CHR '':'' entry of
        [pitch_name, dur_val] \<Rightarrow>
          (case entry_duration dur_val of
             Inl e \<Rightarrow> Inl e
           | Inr v \<Rightarrow>
               (case Note_init L pitch_name of
                  Inl e \<Rightarrow> Inl e
                | Inr p \<Rightarrow>
                    (case set_quarterLength L v of
                       Inl e \<Rightarrow> Inl e
                     | Inr d \<Rightarrow> Inr (Note p d))))
      | [_] \<Rightarrow> Inl (ValueError ''not enough values to unpack (expected 2, got 1)'')
      | _ \<Rightarrow> Inl (ValueError ''too many values to unpack (expected 2)''))"

text \<open>The loop of line 277 over the entries, appending to the stream.\<close>

fun decode_entries :: "music21 \<Rightarrow> string list \<Rightarrow> element list \<Rightarrow> exn + element list" where
  "decode_entries L [] new_stream = Inr new_stream"
| "decode_entries L (entry # rest) new_stream =
     (case decode_entry L entry of
        Inl e \<Rightarrow> Inl e
      | Inr n \<Rightarrow> decode_entries L rest (new_stream @ [n]))"

definition note_entries :: "string \<Rightarrow> string list" where
  "note_entries corrected_notes_text = map strip (split_on CHR '','' corrected_notes_text)"

definition decode :: "music21 \<Rightarrow> string \<Rightarrow> exn + element list" where
  "decode L corrected_notes_text = decode_entries L (note_entries corrected_notes_text) []"

definition error_message :: "exn \<Rightarrow> string" where
  "error_message e =
     ''Error parsing notes: '' @ str_of e @ ''. Please use format '' @ [CHR 0x27]
       @ ''Pitch:Duration'' @ [CHR 0x27] @ ''.''"

text \<open>
  The whole operation returns the files after the call and the text returned. Every
  exception of the body is caught by the handler of line 299.
\<close>

definition update_musicxml :: "music21 \<Rightarrow> files \<Rightarrow> string \<Rightarrow> string \<Rightarrow> files \<times> string" where
  "update_musicxml L fs xml_path corrected_notes_text =
     (case decode L corrected_notes_text of
        Inl e \<Rightarrow> (fs, error_message e)
      | Inr new_stream \<Rightarrow>
          (case stream_write L xml_path new_stream of
             Inl e \<Rightarrow> (fs, error_message e)
           | Inr written \<Rightarrow>
               (let fs' = fs(xml_path \<mapsto> Score written) in
                case get_notes_from_xml fs' xml_path of
                  Inl e \<Rightarrow> (fs', error_message e)
                | Inr message \<Rightarrow> (fs', message))))"

subsection \<open>A reference behaviour of the library\<close>

text \<open>
  Modelled from the spec: the note constructor, the duration type names and the export
  are functions of the third-party notation library, which is not under src/. The
  constructor follows the pitch grammar of the note-correction protocol,
  \<open>[A-G][#b]?[0-9]\<close>; the type name of a quarter length is its name in the duration
  table, \<open>zero\<close> for no length and \<open>complex\<close> for any other; a written
  document reads back as the same ordered notes.
\<close>

definition step_of_char :: "char \<Rightarrow> step option" where
  "step_of_char c =
     (if c = CHR ''C'' then Some C else if c = CHR ''D'' then Some D
      else if c = CHR ''E'' then Some E else if c = CHR ''F'' then Some F
      else if c = CHR ''G'' then Some G else if c = CHR ''A'' then Some A
      else if c = CHR ''B'' then Some B else None)"

definition spec_Note :: "string \<Rightarrow> exn + pitch" where
  "spec_Note s =
     (let bad = Inl (LibraryError (''invalid pitch name '' @ repr s)) in
      case s of
        [l, oc] \<Rightarrow>
          (case step_of_char l of
             Some st \<Rightarrow>
               if is_digit oc
               then Inr \<lparr>step = st, accidental = None, octave = Some (int (digit_val oc))\<rparr>
               else bad
           | None \<Rightarrow> bad)
      | [l, a, oc] \<Rightarrow>
          (case step_of_char l of
             Some st \<Rightarrow>
               if is_digit oc \<and> (a = CHR ''#'' \<or> a = CHR ''b'')
               then Inr \<lparr>step = st,
                         accidental = Some (if a = CHR ''#'' then Sharp else Flat),
                         octave = Some (int (digit_val oc))\<rparr>
               else bad
           | None \<Rightarrow> bad)
      | _ \<Rightarrow> bad)"

definition spec_duration_type :: "rat \<Rightarrow> string" where
  "spec_duration_type q =
     (if q = 1 / 4 then ''16th'' else if q = 1 / 2 then ''eighth''
      else if q = 1 then ''quarter'' else if q = 2 then ''half''
      else if q = 4 then ''whole'' else if q = 0 then ''zero'' else ''complex'')"

definition reference_library :: music21 where
  "reference_library =
     \<lparr>Note_init = spec_Note, duration_type = spec_duration_type,
      stream_write = (\<lambda>fp els. Inr els)\<rparr>"

section \<open>play\_violin\_mp3\_library: the playback engine\<close>

text \<open>
  What playback does to the outside is recorded in order: the audio mixer is initialised
  and quit, a sample is played and faded out, the thread sleeps, and the message
  variable is assigned or extended.
\<close>

datatype event =
    MixerInit
  | MixerQuit
  | SoundPlay string
  | Fadeout nat
  | Sleep rat
  | Assign string
  | Append string

text \<open>The value of the message variable after a run of events; it starts empty.\<close>

fun message_after :: "string \<Rightarrow> event list \<Rightarrow> string" where
  "message_after m [] = m"
| "message_after m (Assign t # evs) = message_after t evs"
| "message_after m (Append t # evs) = message_after (m @ t) evs"
| "message_after m (_ # evs) = message_after m evs"

text \<open>\<open>os.path.join(a, b)\<close> on POSIX paths.\<close>

definition path_join :: "string \<Rightarrow> string \<Rightarrow> string" where
  "path_join a b =
     (if b \<noteq> [] \<and> hd b = CHR ''/'' then b
      else if a = [] \<or> last a = CHR ''/'' then a @ b
      else a @ ''/'' @ b)"

text \<open>\<open>time.sleep(t)\<close> raises on a negative argument.\<close>

definition sleep :: "rat \<Rightarrow> exn + event" where
  "sleep t = (if t < 0 then Inl (ValueError ''sleep length must be non-negative'') else Inr (Sleep t))"

text \<open>\<open>pygame.mixer.Sound(path)\<close> loads an audio sample and raises on any other file.\<close>

definition Sound :: "files \<Rightarrow> string \<Rightarrow> exn + string" where
  "Sound fs p = (if fs p = Some Sample then Inr p else Inl (LibraryError ''pygame.error''))"

definition playing_text :: "string \<Rightarrow> string" where
  "playing_text filename = [CHR 0xF0, CHR 0x9F, CHR 0x94, CHR 0x8A] @ '' Playing: '' @ filename"

definition error_text :: "string \<Rightarrow> exn \<Rightarrow> string" where
  "error_text filename e =
     [CHR 0xF0, CHR 0x9F, CHR 0x9A, CHR 0xA8] @ '' Error playing '' @ filename @ '': '' @ str_of e"

definition missing_prefix :: string where
  "missing_prefix =
     [CHR 0xE2, CHR 0x9A, CHR 0xA0, CHR 0xEF, CHR 0xB8, CHR 0x8F] @ '' Missing from library: ''"

definition missing_text :: "string \<Rightarrow> string" where
  "missing_text filename = missing_prefix @ filename"

text \<open>
  Lines 149 to 159: the file name of a note's sample. A pitch whose accidental is named
  \<open>sharp\<close> is replaced by its lower enharmonic; every \<open>-\<close> of the name becomes \<open>b\<close>.
\<close>

definition filename_base :: "pitch \<Rightarrow> exn + string" where
  "filename_base p =
     (if accidental p = Some Sharp then
        (case getLowerEnharmonic p of Inl e \<Rightarrow> Inl e | Inr q \<Rightarrow> Inr (nameWithOctave q))
      else Inr (nameWithOctave p))"

definition sample_filename :: "pitch \<Rightarrow> exn + string" where
  "sample_filename p =
     (case filename_base p of
        Inl e \<Rightarrow> Inl e
      | Inr b \<Rightarrow> Inr (replace_char CHR ''-'' CHR ''b'' b @ ''.mp3''))"

text \<open>
  Lines 168 to 177: the guarded playing of a present sample. An exception of the
  loading, or of the sleep, is caught and recorded in the message.
\<close>

definition play_sample :: "files \<Rightarrow> string \<Rightarrow> string \<Rightarrow> rat \<Rightarrow> event list" where
  "play_sample fs file_path filename t =
     (case Sound fs file_path of
        Inl e \<Rightarrow> [Append (error_text filename e)]
      | Inr sound \<Rightarrow>
          (case sleep t of
             Inl e \<Rightarrow> [SoundPlay sound, Append (error_text filename e)]
           | Inr ev \<Rightarrow> [SoundPlay sound, ev, Fadeout 150]))"

text \<open>
  One pass of the loop of line 145: the events of the element, and the exception that
  leaves the loop, if any. A chord is passed over.
\<close>

fun play_element :: "files \<Rightarrow> string \<Rightarrow> element \<Rightarrow> event list \<times> exn option" where
  "play_element fs folder_name (Note p d) =
     (case sample_filename p of
        Inl e \<Rightarrow> ([], Some e)
      | Inr filename \<Rightarrow>
          (let file_path = path_join folder_name filename in
           if exists fs file_path then
             (Append (playing_text filename)
                # play_sample fs file_path filename (quarterLength d * (3 / 5)), None)
           else
             (case sleep (quarterLength d * (3 / 5)) of
                Inl e \<Rightarrow> ([Append (missing_text filename)], Some e)
              | Inr ev \<Rightarrow> ([Append (missing_text filename), ev], None))))"
| "play_element fs folder_name (Chord ps d) = ([], None)"

fun play_notes :: "files \<Rightarrow> string \<Rightarrow> element list \<Rightarrow> event list \<times> exn option" where
  "play_notes fs folder_name [] = ([], None)"
| "play_notes fs folder_name (n # ns) =
     (case play_element fs folder_name n of
        (evs, Some e) \<Rightarrow> (evs, Some e)
      | (evs, None) \<Rightarrow>
          (case play_notes fs folder_name ns of (evs', r) \<Rightarrow> (evs @ evs', r)))"

definition xml_not_found_text :: "string \<Rightarrow> string" where
  "xml_not_found_text xml_path =
     [CHR 0xF0, CHR 0x9F, CHR 0x9A, CHR 0xA8] @ '' XML file not found: '' @ xml_path"

definition ready_text :: "string \<Rightarrow> string" where
  "ready_text folder_name =
     [CHR 0xF0, CHR 0x9F, CHR 0x8E, CHR 0xBB] @ '' Ready! Accessing library: '' @ folder_name @ ''...''"

definition finished_text :: string where
  "finished_text = [CHR 0xE2, CHR 0x9C, CHR 0x85] @ '' Performance finished!''"

text \<open>
  The whole operation: the events in order, and the text returned or the exception that
  leaves the function.
\<close>

definition play_violin_mp3_library ::
  "files \<Rightarrow> string \<Rightarrow> string \<Rightarrow> event list \<times> (exn + string)" where
  "play_violin_mp3_library fs xml_path folder_name =
     (let start = [MixerInit, Assign []] in
      if \<not> exists fs xml_path then
        (let evs = start @ [Assign (xml_not_found_text xml_path)]
         in (evs, Inr (message_after [] evs)))
      else
        (case parse_notes fs xml_path of
           Inl e \<Rightarrow> (start, Inl e)
         | Inr notes \<Rightarrow>
             (case play_notes fs folder_name notes of
                (evs, Some e) \<Rightarrow> (start @ [Assign (ready_text folder_name)] @ evs, Inl e)
              | (evs, None) \<Rightarrow>
                  (let all = start @ [Assign (ready_text folder_name)] @ evs
                               @ [MixerQuit, Append finished_text]
                   in (all, Inr (message_after [] all))))))"

text \<open>What a run blocked for, and the warnings it appended.\<close>

fun blocked :: "event list \<Rightarrow> rat" where
  "blocked [] = 0"
| "blocked (Sleep t # evs) = t + blocked evs"
| "blocked (_ # evs) = blocked evs"

fun missing_warnings :: "event list \<Rightarrow> string list" where
  "missing_warnings [] = []"
| "missing_warnings (Append t # evs) =
     (if starts_with t missing_prefix then t # missing_warnings evs else missing_warnings evs)"
| "missing_warnings (_ # evs) = missing_warnings evs"

section \<open>generate\_visual\_sheet: the visual renderer\<close>

text \<open>
  The canvas is the list of the images composited onto it, each with the path it was
  opened from and its position, in the order of the calls of \<open>alpha_composite\<close>.
\<close>

record sheet =
  x_cursor :: rat
  y_origin_offset :: int
  accumulated_duration :: rat
  master_canvas :: "(string \<times> int \<times> int) list"

definition BEAT_WIDTH :: rat where
  "BEAT_WIDTH = 150"

definition LINE_SPACING :: int where
  "LINE_SPACING = 500"

definition MAX_DURATION_PER_LINE :: rat where
  "MAX_DURATION_PER_LINE = 4"

text \<open>\<open>int(x)\<close> truncates towards zero.\<close>

definition py_int :: "rat \<Rightarrow> int" where
  "py_int r = (if 0 \<le> r then \<lfloor>r\<rfloor> else \<lceil>r\<rceil>)"

text \<open>\<open>Image.open(path).convert("RGBA")\<close>: the picture at the path.\<close>

definition Image_open :: "files \<Rightarrow> string \<Rightarrow> exn + string" where
  "Image_open fs p =
     (case fs p of
        None \<Rightarrow> Inl (FileNotFoundError p)
      | Some Picture \<Rightarrow> Inr p
      | Some _ \<Rightarrow> Inl (LibraryError ''UnidentifiedImageError''))"

text \<open>Lines 227 to 230: the sticker of a note.\<close>

definition sticker_name :: "pitch \<Rightarrow> duration \<Rightarrow> string" where
  "sticker_name p d =
     (if diatonicNoteNum p \<ge> 35 then dtype d @ ''_rev.png'' else dtype d @ ''.png'')"

text \<open>Lines 232 to 238: open the sticker, or the standard one when the file is not found.\<close>

definition open_sticker :: "files \<Rightarrow> string \<Rightarrow> pitch \<Rightarrow> duration \<Rightarrow> exn + string" where
  "open_sticker fs library_folder p d =
     (case Image_open fs (library_folder @ ''/'' @ sticker_name p d) of
        Inl (FileNotFoundError _) \<Rightarrow> Image_open fs (library_folder @ ''/'' @ dtype d @ ''.png'')
      | r \<Rightarrow> r)"

text \<open>Lines 219 to 223: the line wrap before a note.\<close>

definition wrap_line :: "string \<Rightarrow> sheet \<Rightarrow> sheet" where
  "wrap_line staff_lines s =
     (if accumulated_duration s > MAX_DURATION_PER_LINE then
        s\<lparr>x_cursor := 100,
          y_origin_offset := y_origin_offset s + LINE_SPACING,
          accumulated_duration := 0,
          master_canvas := master_canvas s @ [(staff_lines, 0, y_origin_offset s + LINE_SPACING)]\<rparr>
      else s)"

text \<open>Lines 218 to 250: one note.\<close>

definition draw_note :: "files \<Rightarrow> string \<Rightarrow> string \<Rightarrow> sheet \<Rightarrow> pitch \<Rightarrow> duration \<Rightarrow> exn + sheet" where
  "draw_note fs library_folder staff_lines s p d =
     (let s1 = wrap_line staff_lines s in
      case open_sticker fs library_folder p d of
        Inl e \<Rightarrow> Inl e
      | Inr sticker \<Rightarrow>
          (let pitch_steps = diatonicNoteNum p;
               y_offset = (544 + y_origin_offset s1) - pitch_steps * 15;
               duration_value = quarterLength d
           in Inr (s1\<lparr>master_canvas := master_canvas s1 @ [(sticker, py_int (x_cursor s1), y_offset)],
                      x_cursor := x_cursor s1 + duration_value * BEAT_WIDTH * 2,
                      accumulated_duration := accumulated_duration s1 + duration_value\<rparr>)))"

fun draw_notes :: "files \<Rightarrow> string \<Rightarrow> string \<Rightarrow> sheet \<Rightarrow> element list \<Rightarrow> exn + sheet" where
  "draw_notes fs library_folder staff_lines s [] = Inr s"
| "draw_notes fs library_folder staff_lines s (Note p d # ns) =
     (case draw_note fs library_folder staff_lines s p d of
        Inl e \<Rightarrow> Inl e
      | Inr s' \<Rightarrow> draw_notes fs library_folder staff_lines s' ns)"
| "draw_notes fs library_folder staff_lines s (Chord ps d # ns) =
     draw_notes fs library_folder staff_lines s ns"

definition blank_sheet :: "string \<Rightarrow> sheet" where
  "blank_sheet staff_lines =
     \<lparr>x_cursor = 100, y_origin_offset = 0, accumulated_duration = 0,
      master_canvas = [(staff_lines, 0, 0)]\<rparr>"

definition rendered_image_path :: "string \<Rightarrow> string" where
  "rendered_image_path xml_path = ''rendered_'' @ hd (split_on CHR ''.'' xml_path) @ ''.png''"

text \<open>
  The whole operation: the files after the call and the sheet saved, or the exception
  that leaves the function. The interactive \<open>show\<close> of line 252 leaves no trace in
  the result and is not part of the model.
\<close>

definition generate_visual_sheet :: "files \<Rightarrow> string \<Rightarrow> string \<Rightarrow> exn + files \<times> sheet" where
  "generate_visual_sheet fs xml_path library_folder =
     (case Image_open fs (library_folder @ ''/blank_staff.png'') of
        Inl e \<Rightarrow> Inl e
      | Inr staff_lines \<Rightarrow>
          (case parse_notes fs xml_path of
             Inl e \<Rightarrow> Inl e
           | Inr notes \<Rightarrow>
               (case draw_notes fs library_folder staff_lines (blank_sheet staff_lines) notes of
                  Inl e \<Rightarrow> Inl e
                | Inr s \<Rightarrow> Inr (fs(rendered_image_path xml_path \<mapsto> Picture), s))))"

section \<open>The properties, as predicates\<close>

text \<open>
  An entry decodes to a note: the entry splits at its colon into a pitch name and a
  duration token, the pitch is the one the constructor gives, and the quarter length is
  the table value of a known name, or else the value \<open>float\<close> gives for the token.
\<close>

definition decodes_to :: "music21 \<Rightarrow> string \<Rightarrow> element \<Rightarrow> bool" where
  "decodes_to L entry n =
     (case (split_on CHR '':'' entry, n) of
        ([pitch_name, dur_val], Note p d) \<Rightarrow>
          Note_init L pitch_name = Inr p \<and>
          (case duration_map (lower (strip dur_val)) of
             Some q \<Rightarrow> quarterLength d = q
           | None \<Rightarrow> py_float dur_val = Inr (Finite (quarterLength d)))
      | _ \<Rightarrow> False)"









text \<open>
  For playback: the sample of a note is missing from the library folder, or is present
  there as an audio sample; the quarter lengths that are played.
\<close>

definition sample_path :: "string \<Rightarrow> pitch \<Rightarrow> string option" where
  "sample_path folder_name p =
     (case sample_filename p of Inl e \<Rightarrow> None | Inr f \<Rightarrow> Some (path_join folder_name f))"

definition asset_missing :: "files \<Rightarrow> string \<Rightarrow> element \<Rightarrow> bool" where
  "asset_missing fs folder_name n =
     (case n of
        Note p d \<Rightarrow>
          (case sample_path folder_name p of None \<Rightarrow> False | Some fp \<Rightarrow> fs fp = None)
      | Chord ps d \<Rightarrow> False)"

definition asset_present :: "files \<Rightarrow> string \<Rightarrow> element \<Rightarrow> bool" where
  "asset_present fs folder_name n =
     (case n of
        Note p d \<Rightarrow>
          (case sample_path folder_name p of None \<Rightarrow> False | Some fp \<Rightarrow> fs fp = Some Sample)
      | Chord ps d \<Rightarrow> False)"

text \<open>
  A well-formed element for playback: a chord, or a note of non-negative length whose
  sample is either missing from the folder or present as an audio sample.
\<close>

definition playable_or_missing :: "files \<Rightarrow> string \<Rightarrow> element \<Rightarrow> bool" where
  "playable_or_missing fs folder_name n =
     (case n of
        Note p d \<Rightarrow>
          0 \<le> quarterLength d \<and>
          (asset_missing fs folder_name n \<or> asset_present fs folder_name n)
      | Chord ps d \<Rightarrow> True)"

fun note_lengths :: "element list \<Rightarrow> rat list" where
  "note_lengths [] = []"
| "note_lengths (Note p d # ns) = quarterLength d # note_lengths ns"
| "note_lengths (Chord ps d # ns) = note_lengths ns"

text \<open>
  For the renderer: the number of line wraps of a sheet, each of which adds the line
  spacing to the vertical offset; and, following the words of the specification, the
  number of 4.0 boundaries that an accumulated duration has crossed.
\<close>

definition line_wraps :: "sheet \<Rightarrow> int" where
  "line_wraps s = y_origin_offset s div LINE_SPACING"

definition boundaries_crossed :: "rat \<Rightarrow> int" where
  "boundaries_crossed t = (if t \<le> 0 then 0 else \<lceil>t / MAX_DURATION_PER_LINE\<rceil> - 1)"

text \<open>The glyph of a note: the reversed variant when it is due and its file is there.\<close>

definition glyph_path :: "files \<Rightarrow> string \<Rightarrow> pitch \<Rightarrow> duration \<Rightarrow> string" where
  "glyph_path fs library_folder p d =
     (if 35 \<le> diatonicNoteNum p \<and> exists fs (library_folder @ ''/'' @ dtype d @ ''_rev.png'')
      then library_folder @ ''/'' @ dtype d @ ''_rev.png''
      else library_folder @ ''/'' @ dtype d @ ''.png'')"

section \<open>Decoding: facts about the loop\<close>

lemma split_on_nonempty: "split_on c s \<noteq> []"
  by (induction s) (auto split: list.splits)

lemma split_on_absent: "c \<notin> set s \<Longrightarrow> split_on c s = [s]"
  by (induction s) auto

lemma decode_entry_Inr:
  assumes "decode_entry L entry = Inr n"
  shows "\<exists>pitch_name dur_val p d.
           split_on CHR '':'' entry = [pitch_name, dur_val] \<and> n = Note p d \<and>
           Note_init L pitch_name = Inr p \<and>
           entry_duration dur_val = Inr (Finite (quarterLength d))"
  using assms
  by (auto simp: decode_entry_def set_quarterLength_def
           split: list.splits sum.splits pyfloat.splits)

lemma decode_entries_Inr:
  "decode_entries L es acc = Inr notes \<Longrightarrow>
     \<exists>ns. notes = acc @ ns \<and> list_all2 (\<lambda>entry n. decode_entry L entry = Inr n) es ns"
proof (induction es arbitrary: acc)
  case Nil
  then show ?case by simp
next
  case (Cons e es)
  then obtain n where n: "decode_entry L e = Inr n"
    and r: "decode_entries L es (acc @ [n]) = Inr notes"
    by (auto split: sum.splits)
  from Cons.IH[OF r] obtain ns where
    "notes = (acc @ [n]) @ ns" "list_all2 (\<lambda>entry n. decode_entry L entry = Inr n) es ns"
    by blast
  then show ?case using n by (intro exI[of _ "n # ns"]) simp
qed

lemma decode_all2:
  assumes "decode L text = Inr notes"
  shows "list_all2 (\<lambda>entry n. decode_entry L entry = Inr n) (note_entries text) notes"
  using decode_entries_Inr[of L "note_entries text" "[]" "notes"] assms
  by (auto simp: decode_def)


lemma entry_duration_cases:
  "entry_duration dv = Inr (Finite q) \<Longrightarrow>
     (case duration_map (lower (strip dv)) of
        Some r \<Rightarrow> q = r
      | None \<Rightarrow> py_float dv = Inr (Finite q))"
  by (auto simp: entry_duration_def split: option.splits)


lemma strip_spaces: "\<forall>c\<in>set s. is_space c \<Longrightarrow> strip s = []"
proof -
  assume "\<forall>c\<in>set s. is_space c"
  then have d: "dropWhile is_space s = []" by simp
  show ?thesis unfolding strip_def d by simp
qed

lemma comma_not_space: "\<not> is_space CHR '',''"
  by (simp add: is_space_def)

lemma blank_entries: "\<forall>c\<in>set s. is_space c \<Longrightarrow> note_entries s = [[]]"
proof -
  assume a: "\<forall>c\<in>set s. is_space c"
  then have "CHR '','' \<notin> set s" using comma_not_space by blast
  then have "split_on CHR '','' s = [s]" by (rule split_on_absent)
  then show ?thesis using strip_spaces[OF a] by (simp add: note_entries_def)
qed

lemma decode_entry_decodes_to:
  "decode_entry L entry = Inr n \<Longrightarrow> decodes_to L entry n"
  by (drule decode_entry_Inr) (auto simp: decodes_to_def dest: entry_duration_cases)


text \<open>
  C10. Decoding the empty correction text, or one made of white space only, fails with
  the parse-error message of the unpacking and writes no document: the files are what
  they were.
\<close>

theorem update_musicxml_blank:
  assumes "\<forall>c\<in>set corrected_notes_text. is_space c"
  shows "update_musicxml L fs xml_path corrected_notes_text =
           (fs, error_message (ValueError ''not enough values to unpack (expected 2, got 1)''))"
  using assms by (simp add: update_musicxml_def decode_def blank_entries decode_entry_def)

theorem update_musicxml_blank_witness:
  "list_all is_space ''  '' \<and>
   update_musicxml reference_library Map.empty ''a.musicxml'' ''  '' =
     (Map.empty, ''Error parsing notes: not enough values to unpack (expected 2, got 1). ''
        @ ''Please use format '' @ [CHR 0x27] @ ''Pitch:Duration'' @ [CHR 0x27] @ ''.'')"
proof -
  have h: "\<forall>c\<in>set ''  ''. is_space c" by (simp add: is_space_def)
  show ?thesis
    using h update_musicxml_blank[OF h, of reference_library Map.empty "''a.musicxml''"]
    by (simp add: error_message_def list_all_iff)
qed

text \<open>
  C1. Decode maps each \<open>Pitch:Duration\<close> token, in order, to a note whose quarter
  length is the value of the fixed table (16th 0.25, eighth 0.5, quarter 1.0, half 2.0,
  whole 4.0) when the duration token is a known name, and otherwise the value of the
  token parsed as a floating-point literal. The text \<open>G4:quarter, A4:half\<close> decodes to
  exactly the two notes (G, 4, 1.0) and (A, 4, 2.0), in that order.
\<close>

theorem decode_quarter_lengths:
  "(decode L corrected_notes_text = Inr new_stream \<longrightarrow>
      list_all2 (decodes_to L) (note_entries corrected_notes_text) new_stream) \<and>
   duration_map ''16th'' = Some (1 / 4) \<and> duration_map ''eighth'' = Some (1 / 2) \<and>
   duration_map ''quarter'' = Some 1 \<and> duration_map ''half'' = Some 2 \<and>
   duration_map ''whole'' = Some 4 \<and>
   decode reference_library ''G4:quarter, A4:half'' =
     Inr [Note \<lparr>step = G, accidental = None, octave = Some 4\<rparr>
               \<lparr>quarterLength = 1, dtype = ''quarter''\<rparr>,
          Note \<lparr>step = A, accidental = None, octave = Some 4\<rparr>
               \<lparr>quarterLength = 2, dtype = ''half''\<rparr>]"
proof -
  have a: "decode L corrected_notes_text = Inr new_stream \<longrightarrow>
      list_all2 (decodes_to L) (note_entries corrected_notes_text) new_stream"
  proof
    assume "decode L corrected_notes_text = Inr new_stream"
    then have "list_all2 (\<lambda>entry n. decode_entry L entry = Inr n)
                 (note_entries corrected_notes_text) new_stream"
      by (rule decode_all2)
    then show "list_all2 (decodes_to L) (note_entries corrected_notes_text) new_stream"
      by (rule list_all2_mono) (rule decode_entry_decodes_to)
  qed
  have b: "duration_map ''16th'' = Some (1 / 4)" "duration_map ''eighth'' = Some (1 / 2)"
    "duration_map ''quarter'' = Some 1" "duration_map ''half'' = Some 2"
    "duration_map ''whole'' = Some 4"
    by (simp_all add: duration_map_def)
  have c: "decode reference_library ''G4:quarter, A4:half'' =
     Inr [Note \<lparr>step = G, accidental = None, octave = Some 4\<rparr>
               \<lparr>quarterLength = 1, dtype = ''quarter''\<rparr>,
          Note \<lparr>step = A, accidental = None, octave = Some 4\<rparr>
               \<lparr>quarterLength = 2, dtype = ''half''\<rparr>]"
    by code_simp
  from a b c show ?thesis by blast
qed

theorem decode_quarter_lengths_witness:
  "note_entries ''G4:quarter, A4:half'' = [''G4:quarter'', ''A4:half''] \<and>
   list_all2 (decodes_to reference_library) [''G4:quarter'', ''A4:half'']
     [Note \<lparr>step = G, accidental = None, octave = Some 4\<rparr>
           \<lparr>quarterLength = 1, dtype = ''quarter''\<rparr>,
      Note \<lparr>step = A, accidental = None, octave = Some 4\<rparr>
           \<lparr>quarterLength = 2, dtype = ''half''\<rparr>]"
proof -
  have e: "note_entries ''G4:quarter, A4:half'' = [''G4:quarter'', ''A4:half'']"
    by code_simp
  show ?thesis
    using decode_quarter_lengths[of reference_library "''G4:quarter, A4:half''"
        "[Note \<lparr>step = G, accidental = None, octave = Some 4\<rparr>
               \<lparr>quarterLength = 1, dtype = ''quarter''\<rparr>,
          Note \<lparr>step = A, accidental = None, octave = Some 4\<rparr>
               \<lparr>quarterLength = 2, dtype = ''half''\<rparr>]"]
    unfolding e by blast
qed







section \<open>The note summary and chords\<close>

text \<open>
  C8. The claim: for a chord the summary emits a pitch-set token paired with the
  duration name, and the operation returns the text for any document with chords. The
  code: on a document whose only event is the chord C4 E4 of a quarter, the summary
  raises TypeError instead of returning.
\<close>

theorem get_notes_from_xml_chord:
  "get_notes_from_xml
     [''c.musicxml'' \<mapsto>
        Score [Chord [\<lparr>step = C, accidental = None, octave = Some 4\<rparr>,
                      \<lparr>step = E, accidental = None, octave = Some 4\<rparr>]
                     \<lparr>quarterLength = 1, dtype = ''quarter''\<rparr>]]
     ''c.musicxml'' =
   Inl (TypeError (''can only concatenate tuple (not '' @ [CHR 0x22] @ ''str'' @ [CHR 0x22]
                     @ '') to tuple''))"
  by code_simp

section \<open>Playback\<close>

text \<open>
  C6. The claim: a pitch spelled with a sharp is looked up under its flat spelling, G
  sharp 4 as \<open>Ab4.mp3\<close>, and no file name with a sharp is ever looked up. The code: for
  G sharp 4 the lower enharmonic is F triple sharp 4, and the file looked up is
  \<open>F###4.mp3\<close>.
\<close>

theorem sample_filename_sharp:
  "sample_filename \<lparr>step = G, accidental = Some Sharp, octave = Some 4\<rparr> = Inr ''F###4.mp3'' \<and>
   contains ''F###4.mp3'' ''#''"
  by code_simp

text \<open>
  C7. The claim: the audio mixer is released before the operation returns, on every
  return path. The code: when the document does not exist the mixer is initialised, the
  not-found text is returned, and the mixer is never quit.
\<close>

theorem play_violin_mp3_library_not_found:
  "play_violin_mp3_library Map.empty ''missing.musicxml'' ''chromatic_samples_library'' =
     ([MixerInit, Assign [], Assign (xml_not_found_text ''missing.musicxml'')],
      Inr (xml_not_found_text ''missing.musicxml'')) \<and>
   MixerQuit \<notin> set (fst (play_violin_mp3_library Map.empty ''missing.musicxml''
                            ''chromatic_samples_library''))"
  by code_simp

lemma sample_filename_total: "\<exists>f. sample_filename p = Inr f"
  by (cases "step p")
     (auto simp: sample_filename_def filename_base_def getLowerEnharmonic_def
                 accidental_of_alter_def)

lemma blocked_append: "blocked (a @ b) = blocked a + blocked b"
  by (induction a rule: blocked.induct) auto

lemma missing_warnings_append: "missing_warnings (a @ b) = missing_warnings a @ missing_warnings b"
  by (induction a rule: missing_warnings.induct) auto

lemma starts_with_append: "starts_with (p @ s) p"
  by (induction p) auto

lemma warning_missing: "starts_with (missing_text f) missing_prefix"
  by (simp add: missing_text_def starts_with_append)

lemma warning_playing: "\<not> starts_with (playing_text f) missing_prefix"
  by (simp add: playing_text_def missing_prefix_def)

lemma warning_finished: "\<not> starts_with finished_text missing_prefix"
  by (simp add: finished_text_def missing_prefix_def)

lemma play_element_missing:
  assumes "sample_filename p = Inr filename"
    and "\<not> exists fs (path_join folder_name filename)"
    and "0 \<le> quarterLength d"
  shows "play_element fs folder_name (Note p d) =
           ([Append (missing_text filename), Sleep (quarterLength d * (3 / 5))], None)"
  using assms by (simp add: sleep_def)

lemma play_element_present:
  assumes "sample_filename p = Inr filename"
    and "fs (path_join folder_name filename) = Some Sample"
    and "0 \<le> quarterLength d"
  shows "play_element fs folder_name (Note p d) =
           ([Append (playing_text filename), SoundPlay (path_join folder_name filename),
             Sleep (quarterLength d * (3 / 5)), Fadeout 150], None)"
  using assms by (simp add: sleep_def exists_def play_sample_def Sound_def)

lemma play_element_ok:
  assumes "playable_or_missing fs folder_name n"
  shows "snd (play_element fs folder_name n) = None \<and>
         blocked (fst (play_element fs folder_name n)) = sum_list (map (\<lambda>q. q * (3 / 5)) (note_lengths [n])) \<and>
         length (missing_warnings (fst (play_element fs folder_name n))) =
           length (filter (asset_missing fs folder_name) [n])"
proof (cases n)
  case (Chord ps d)
  then show ?thesis by (simp add: asset_missing_def)
next
  case (Note p d)
  obtain f where f: "sample_filename p = Inr f" using sample_filename_total by blast
  from assms Note have q: "0 \<le> quarterLength d"
    and c: "asset_missing fs folder_name n \<or> asset_present fs folder_name n"
    by (auto simp: playable_or_missing_def)
  from c show ?thesis
  proof
    assume m: "asset_missing fs folder_name n"
    then have "\<not> exists fs (path_join folder_name f)"
      using Note f by (simp add: asset_missing_def sample_path_def exists_def)
    with play_element_missing[of p f fs folder_name d] f q m show ?thesis
      using Note warning_missing by simp
  next
    assume a: "asset_present fs folder_name n"
    then have s: "fs (path_join folder_name f) = Some Sample"
      using Note f by (simp add: asset_present_def sample_path_def)
    then have "\<not> asset_missing fs folder_name n"
      using Note f by (simp add: asset_missing_def sample_path_def)
    with play_element_present[of p f fs folder_name d] f s q show ?thesis
      using Note warning_playing by simp
  qed
qed

lemma play_notes_ok:
  assumes "list_all (playable_or_missing fs folder_name) els"
  shows "snd (play_notes fs folder_name els) = None \<and>
         blocked (fst (play_notes fs folder_name els)) = sum_list (map (\<lambda>q. q * (3 / 5)) (note_lengths els)) \<and>
         length (missing_warnings (fst (play_notes fs folder_name els))) =
           length (filter (asset_missing fs folder_name) els)"
  using assms
proof (induction els)
  case Nil
  then show ?case by simp
next
  case (Cons n ns)
  then have n: "playable_or_missing fs folder_name n" and ns: "list_all (playable_or_missing fs folder_name) ns"
    by simp_all
  obtain evs where e: "play_element fs folder_name n = (evs, None)"
    using play_element_ok[OF n] by (cases "play_element fs folder_name n") auto
  obtain evs' where e': "play_notes fs folder_name ns = (evs', None)"
    using Cons.IH[OF ns] by (cases "play_notes fs folder_name ns") auto
  have l: "note_lengths (n # ns) = note_lengths [n] @ note_lengths ns"
    by (cases n) simp_all
  show ?case
    using play_element_ok[OF n] Cons.IH[OF ns] e e'
    by (simp add: blocked_append missing_warnings_append l del: note_lengths.simps play_element.simps)
qed

text \<open>
  C3. Playback walks the notes in order. A note whose sample file is missing from the
  library plays no sound, still blocks for its quarter length times 0.6 seconds, and
  appends exactly one missing-asset warning to the message. Over a whole document of
  notes whose samples are missing or present, the run returns its message, blocks for
  the sum of the scaled lengths of all notes, and appends one warning per note with a
  missing sample: with one present and one missing sample, the sum of both and exactly
  one warning.
\<close>

theorem playback_missing_asset:
  "(sample_filename p = Inr filename \<longrightarrow> \<not> exists fs (path_join folder_name filename) \<longrightarrow>
    0 \<le> quarterLength d \<longrightarrow>
      play_element fs folder_name (Note p d) =
        ([Append (missing_text filename), Sleep (quarterLength d * (3 / 5))], None)) \<and>
   (fs xml_path = Some (Score els) \<longrightarrow> list_all (playable_or_missing fs folder_name) els \<longrightarrow>
      snd (play_violin_mp3_library fs xml_path folder_name) =
        Inr (message_after [] (fst (play_violin_mp3_library fs xml_path folder_name))) \<and>
      blocked (fst (play_violin_mp3_library fs xml_path folder_name)) =
        sum_list (map (\<lambda>q. q * (3 / 5)) (note_lengths els)) \<and>
      length (missing_warnings (fst (play_violin_mp3_library fs xml_path folder_name))) =
        length (filter (asset_missing fs folder_name) els))"
proof (intro conjI impI)
  assume "sample_filename p = Inr filename" "\<not> exists fs (path_join folder_name filename)"
    "0 \<le> quarterLength d"
  then show "play_element fs folder_name (Note p d) =
        ([Append (missing_text filename), Sleep (quarterLength d * (3 / 5))], None)"
    by (rule play_element_missing)
next
  assume f: "fs xml_path = Some (Score els)"
    and w: "list_all (playable_or_missing fs folder_name) els"
  obtain evs where e: "play_notes fs folder_name els = (evs, None)"
    using play_notes_ok[OF w] by (cases "play_notes fs folder_name els") auto
  have run: "play_violin_mp3_library fs xml_path folder_name =
      ([MixerInit, Assign []] @ [Assign (ready_text folder_name)] @ evs
         @ [MixerQuit, Append finished_text],
       Inr (message_after [] ([MixerInit, Assign []] @ [Assign (ready_text folder_name)] @ evs
         @ [MixerQuit, Append finished_text])))"
    using f e by (simp add: play_violin_mp3_library_def exists_def parse_notes_def Let_def)
  show "snd (play_violin_mp3_library fs xml_path folder_name) =
        Inr (message_after [] (fst (play_violin_mp3_library fs xml_path folder_name)))"
    unfolding run by simp
  show "blocked (fst (play_violin_mp3_library fs xml_path folder_name)) =
        sum_list (map (\<lambda>q. q * (3 / 5)) (note_lengths els))"
    unfolding run using play_notes_ok[OF w] e by (simp add: blocked_append)
  show "length (missing_warnings (fst (play_violin_mp3_library fs xml_path folder_name))) =
        length (filter (asset_missing fs folder_name) els)"
    unfolding run using play_notes_ok[OF w] e
    by (simp add: missing_warnings_append warning_finished)
qed


theorem playback_missing_asset_witness:
  "[''s.musicxml'' \<mapsto>
      Score [Note \<lparr>step = G, accidental = None, octave = Some 4\<rparr>
                  \<lparr>quarterLength = 1, dtype = ''quarter''\<rparr>,
             Note \<lparr>step = A, accidental = None, octave = Some 4\<rparr>
                  \<lparr>quarterLength = 2, dtype = ''half''\<rparr>],
    ''lib/G4.mp3'' \<mapsto> Sample] ''s.musicxml'' =
     Some (Score [Note \<lparr>step = G, accidental = None, octave = Some 4\<rparr>
                       \<lparr>quarterLength = 1, dtype = ''quarter''\<rparr>,
                  Note \<lparr>step = A, accidental = None, octave = Some 4\<rparr>
                       \<lparr>quarterLength = 2, dtype = ''half''\<rparr>]) \<and>
   list_all (playable_or_missing
      [''s.musicxml'' \<mapsto>
        Score [Note \<lparr>step = G, accidental = None, octave = Some 4\<rparr>
                    \<lparr>quarterLength = 1, dtype = ''quarter''\<rparr>,
               Note \<lparr>step = A, accidental = None, octave = Some 4\<rparr>
                    \<lparr>quarterLength = 2, dtype = ''half''\<rparr>],
       ''lib/G4.mp3'' \<mapsto> Sample] ''lib'')
     [Note \<lparr>step = G, accidental = None, octave = Some 4\<rparr>
           \<lparr>quarterLength = 1, dtype = ''quarter''\<rparr>,
      Note \<lparr>step = A, accidental = None, octave = Some 4\<rparr>
           \<lparr>quarterLength = 2, dtype = ''half''\<rparr>] \<and>
   blocked (fst (play_violin_mp3_library
      [''s.musicxml'' \<mapsto>
        Score [Note \<lparr>step = G, accidental = None, octave = Some 4\<rparr>
                    \<lparr>quarterLength = 1, dtype = ''quarter''\<rparr>,
               Note \<lparr>step = A, accidental = None, octave = Some 4\<rparr>
                    \<lparr>quarterLength = 2, dtype = ''half''\<rparr>],
       ''lib/G4.mp3'' \<mapsto> Sample] ''s.musicxml'' ''lib'')) = 1 * (3 / 5) + 2 * (3 / 5) \<and>
   length (missing_warnings (fst (play_violin_mp3_library
      [''s.musicxml'' \<mapsto>
        Score [Note \<lparr>step = G, accidental = None, octave = Some 4\<rparr>
                    \<lparr>quarterLength = 1, dtype = ''quarter''\<rparr>,
               Note \<lparr>step = A, accidental = None, octave = Some 4\<rparr>
                    \<lparr>quarterLength = 2, dtype = ''half''\<rparr>],
       ''lib/G4.mp3'' \<mapsto> Sample] ''s.musicxml'' ''lib''))) = 1 \<and>
   snd (play_violin_mp3_library
      [''s.musicxml'' \<mapsto>
        Score [Note \<lparr>step = G, accidental = None, octave = Some 4\<rparr>
                    \<lparr>quarterLength = 1, dtype = ''quarter''\<rparr>,
               Note \<lparr>step = A, accidental = None, octave = Some 4\<rparr>
                    \<lparr>quarterLength = 2, dtype = ''half''\<rparr>],
       ''lib/G4.mp3'' \<mapsto> Sample] ''s.musicxml'' ''lib'') =
     Inr (ready_text ''lib'' @ playing_text ''G4.mp3'' @ missing_text ''A4.mp3''
            @ finished_text)"
proof -
  let ?els = "[Note \<lparr>step = G, accidental = None, octave = Some 4\<rparr>
                    \<lparr>quarterLength = 1, dtype = ''quarter''\<rparr>,
               Note \<lparr>step = A, accidental = None, octave = Some 4\<rparr>
                    \<lparr>quarterLength = 2, dtype = ''half''\<rparr>]"
  let ?fs = "[''s.musicxml'' \<mapsto> Score ?els, ''lib/G4.mp3'' \<mapsto> Sample]"
  have h1: "?fs ''s.musicxml'' = Some (Score ?els)" by simp
  have h2: "list_all (playable_or_missing ?fs ''lib'') ?els" by code_simp
  have c: "length (filter (asset_missing ?fs ''lib'') ?els) = 1" by code_simp
  from playback_missing_asset[of _ _ ?fs "''lib''" _ "''s.musicxml''" ?els] h1 h2
  have "blocked (fst (play_violin_mp3_library ?fs ''s.musicxml'' ''lib'')) =
          sum_list (map (\<lambda>q. q * (3 / 5)) (note_lengths ?els))"
    and "length (missing_warnings (fst (play_violin_mp3_library ?fs ''s.musicxml'' ''lib''))) =
          length (filter (asset_missing ?fs ''lib'') ?els)"
    by blast+
  moreover have "snd (play_violin_mp3_library ?fs ''s.musicxml'' ''lib'') =
     Inr (ready_text ''lib'' @ playing_text ''G4.mp3'' @ missing_text ''A4.mp3''
            @ finished_text)"
    by code_simp
  ultimately show ?thesis using c h1 h2 by simp
qed


section \<open>The renderer\<close>

lemma open_sticker_glyph:
  assumes "open_sticker fs library_folder p d = Inr img"
  shows "img = glyph_path fs library_folder p d"
proof (cases "35 \<le> diatonicNoteNum p")
  case True
  then have n: "sticker_name p d = dtype d @ ''_rev.png''" by (simp add: sticker_name_def)
  show ?thesis
  proof (cases "fs (library_folder @ ''/'' @ dtype d @ ''_rev.png'')")
    case None
    with assms n True show ?thesis
      by (auto simp: open_sticker_def Image_open_def glyph_path_def exists_def
               split: option.splits content.splits)
  next
    case (Some c)
    with assms n True show ?thesis
      by (cases c) (auto simp: open_sticker_def Image_open_def glyph_path_def exists_def)
  qed
next
  case False
  then have n: "sticker_name p d = dtype d @ ''.png''" by (simp add: sticker_name_def)
  with assms False show ?thesis
    by (auto simp: open_sticker_def Image_open_def glyph_path_def
             split: option.splits content.splits)
qed

lemma sticker_rev_iff:
  "sticker_name p d = dtype d @ ''_rev.png'' \<longleftrightarrow> 35 \<le> diatonicNoteNum p"
  by (simp add: sticker_name_def)

lemma draw_note_glyph:
  assumes "draw_note fs library_folder staff_lines s p d = Inr s'"
  shows "fst (last (master_canvas s')) = glyph_path fs library_folder p d"
proof -
  from assms obtain img where i: "open_sticker fs library_folder p d = Inr img"
    by (auto simp: draw_note_def Let_def split: sum.splits)
  with assms have "fst (last (master_canvas s')) = img"
    by (auto simp: draw_note_def Let_def)
  with open_sticker_glyph[OF i] show ?thesis by simp
qed

lemma draw_note_step:
  assumes "draw_note fs library_folder staff_lines s p d = Inr s'"
  shows "if accumulated_duration s > 4 then
           y_origin_offset s' = y_origin_offset s + 500 \<and>
           accumulated_duration s' = quarterLength d \<and>
           x_cursor s' = 100 + quarterLength d * 300 \<and>
           master_canvas s' = master_canvas s @
              [(staff_lines, 0, y_origin_offset s + 500),
               (glyph_path fs library_folder p d, 100,
                (544 + (y_origin_offset s + 500)) - diatonicNoteNum p * 15)]
         else
           y_origin_offset s' = y_origin_offset s \<and>
           accumulated_duration s' = accumulated_duration s + quarterLength d \<and>
           x_cursor s' = x_cursor s + quarterLength d * 300 \<and>
           master_canvas s' = master_canvas s @
              [(glyph_path fs library_folder p d, py_int (x_cursor s),
                (544 + y_origin_offset s) - diatonicNoteNum p * 15)]"
proof -
  from assms obtain img where i: "open_sticker fs library_folder p d = Inr img"
    by (auto simp: draw_note_def Let_def split: sum.splits)
  note g = open_sticker_glyph[OF i]
  show ?thesis using assms i g
    by (auto simp: draw_note_def Let_def wrap_line_def MAX_DURATION_PER_LINE_def
          LINE_SPACING_def BEAT_WIDTH_def py_int_def)
qed

text \<open>
  C5. The glyph of a rendered note is keyed by the name of its duration; the reversed
  variant \<open>{durationName}_rev.png\<close> is selected if and only if the diatonic step
  number of the note is 35 or more; when the file of the reversed variant is absent the
  renderer opens \<open>{durationName}.png\<close> instead, and the glyph composited for the note
  is the one so chosen.
\<close>

theorem glyph_selection:
  "(sticker_name p d = dtype d @ ''_rev.png'' \<longleftrightarrow> 35 \<le> diatonicNoteNum p) \<and>
   (sticker_name p d = dtype d @ ''.png'' \<longleftrightarrow> diatonicNoteNum p < 35) \<and>
   (35 \<le> diatonicNoteNum p \<longrightarrow> fs (library_folder @ ''/'' @ dtype d @ ''_rev.png'') = None \<longrightarrow>
      open_sticker fs library_folder p d =
        Image_open fs (library_folder @ ''/'' @ dtype d @ ''.png'')) \<and>
   (draw_note fs library_folder staff_lines s p d = Inr s' \<longrightarrow>
      fst (last (master_canvas s')) = glyph_path fs library_folder p d)"
proof (intro conjI impI)
  show "sticker_name p d = dtype d @ ''_rev.png'' \<longleftrightarrow> 35 \<le> diatonicNoteNum p"
    by (rule sticker_rev_iff)
  show "sticker_name p d = dtype d @ ''.png'' \<longleftrightarrow> diatonicNoteNum p < 35"
    by (auto simp: sticker_name_def)
next
  assume "35 \<le> diatonicNoteNum p" "fs (library_folder @ ''/'' @ dtype d @ ''_rev.png'') = None"
  then show "open_sticker fs library_folder p d =
        Image_open fs (library_folder @ ''/'' @ dtype d @ ''.png'')"
    by (simp add: open_sticker_def sticker_name_def Image_open_def)
next
  assume "draw_note fs library_folder staff_lines s p d = Inr s'"
  then show "fst (last (master_canvas s')) = glyph_path fs library_folder p d"
    by (rule draw_note_glyph)
qed

theorem glyph_selection_witness:
  "35 \<le> diatonicNoteNum \<lparr>step = B, accidental = None, octave = Some 4\<rparr> \<and>
   diatonicNoteNum \<lparr>step = A, accidental = None, octave = Some 4\<rparr> < 35 \<and>
   [''lib/quarter.png'' \<mapsto> Picture] (''lib'' @ ''/'' @ ''quarter'' @ ''_rev.png'') = None \<and>
   sticker_name \<lparr>step = B, accidental = None, octave = Some 4\<rparr>
     \<lparr>quarterLength = 1, dtype = ''quarter''\<rparr> = ''quarter_rev.png'' \<and>
   sticker_name \<lparr>step = A, accidental = None, octave = Some 4\<rparr>
     \<lparr>quarterLength = 1, dtype = ''quarter''\<rparr> = ''quarter.png'' \<and>
   open_sticker [''lib/quarter.png'' \<mapsto> Picture] ''lib''
     \<lparr>step = B, accidental = None, octave = Some 4\<rparr>
     \<lparr>quarterLength = 1, dtype = ''quarter''\<rparr> = Inr ''lib/quarter.png''"
proof -
  let ?b4 = "\<lparr>step = B, accidental = None, octave = Some 4\<rparr>"
  let ?a4 = "\<lparr>step = A, accidental = None, octave = Some 4\<rparr>"
  let ?q = "\<lparr>quarterLength = 1, dtype = ''quarter''\<rparr>"
  let ?fs = "[''lib/quarter.png'' \<mapsto> Picture]"
  have h1: "35 \<le> diatonicNoteNum ?b4" by (simp add: diatonicNoteNum_def)
  have h2: "diatonicNoteNum ?a4 < 35" by (simp add: diatonicNoteNum_def)
  have h3: "?fs (''lib'' @ ''/'' @ ''quarter'' @ ''_rev.png'') = None" by simp
  have o: "Image_open ?fs (''lib'' @ ''/'' @ ''quarter'' @ ''.png'') = Inr ''lib/quarter.png''"
    by (simp add: Image_open_def)
  from glyph_selection[of ?b4 ?q ?fs "''lib''"] h1 h3 o
  have b: "sticker_name ?b4 ?q = ''quarter_rev.png''"
    and f: "open_sticker ?fs ''lib'' ?b4 ?q = Inr ''lib/quarter.png''"
    by simp_all
  from glyph_selection[of ?a4 ?q ?fs "''lib''"] h2
  have a: "sticker_name ?a4 ?q = ''quarter.png''" by simp
  from h1 h2 h3 a b f show ?thesis by blast
qed

text \<open>
  C4, as amended. Before each note is drawn the renderer wraps the line exactly when the
  accumulated duration of the notes drawn so far on the current line is strictly greater
  than 4.0, once: the cursor goes back to the line start, the vertical offset advances
  by the line spacing, the accumulator restarts from zero and a fresh staff tile is
  composited at the new offset, before the glyph of the note; otherwise the note is
  drawn on the current line and nothing but its glyph is composited.
\<close>

theorem draw_note_line_wrap:
  assumes "draw_note fs library_folder staff_lines s p d = Inr s'"
  shows "if accumulated_duration s > 4 then
           y_origin_offset s' = y_origin_offset s + 500 \<and>
           accumulated_duration s' = quarterLength d \<and>
           x_cursor s' = 100 + quarterLength d * 300 \<and>
           master_canvas s' = master_canvas s @
              [(staff_lines, 0, y_origin_offset s + 500),
               (glyph_path fs library_folder p d, 100,
                (544 + (y_origin_offset s + 500)) - diatonicNoteNum p * 15)]
         else
           y_origin_offset s' = y_origin_offset s \<and>
           accumulated_duration s' = accumulated_duration s + quarterLength d \<and>
           x_cursor s' = x_cursor s + quarterLength d * 300 \<and>
           master_canvas s' = master_canvas s @
              [(glyph_path fs library_folder p d, py_int (x_cursor s),
                (544 + y_origin_offset s) - diatonicNoteNum p * 15)]"
  using assms by (rule draw_note_step)

theorem draw_note_line_wrap_witness:
  "draw_note [''lib/quarter.png'' \<mapsto> Picture] ''lib'' ''lib/blank_staff.png''
     \<lparr>x_cursor = 1600, y_origin_offset = 0, accumulated_duration = 5,
      master_canvas = [(''lib/blank_staff.png'', 0, 0)]\<rparr>
     \<lparr>step = G, accidental = None, octave = Some 4\<rparr>
     \<lparr>quarterLength = 1, dtype = ''quarter''\<rparr> =
   Inr \<lparr>x_cursor = 400, y_origin_offset = 500, accumulated_duration = 1,
        master_canvas = [(''lib/blank_staff.png'', 0, 0), (''lib/blank_staff.png'', 0, 500),
                         (''lib/quarter.png'', 100, 549)]\<rparr> \<and>
   y_origin_offset \<lparr>x_cursor = 400, y_origin_offset = 500, accumulated_duration = 1,
        master_canvas = [(''lib/blank_staff.png'', 0, 0), (''lib/blank_staff.png'', 0, 500),
                         (''lib/quarter.png'', 100, 549)]\<rparr> = 0 + 500"
proof -
  let ?s = "\<lparr>x_cursor = 1600, y_origin_offset = 0, accumulated_duration = 5,
      master_canvas = [(''lib/blank_staff.png'', 0, 0)]\<rparr>"
  let ?s' = "\<lparr>x_cursor = 400, y_origin_offset = 500, accumulated_duration = 1,
        master_canvas = [(''lib/blank_staff.png'', 0, 0), (''lib/blank_staff.png'', 0, 500),
                         (''lib/quarter.png'', 100, 549)]\<rparr>"
  have h: "draw_note [''lib/quarter.png'' \<mapsto> Picture] ''lib'' ''lib/blank_staff.png'' ?s
     \<lparr>step = G, accidental = None, octave = Some 4\<rparr>
     \<lparr>quarterLength = 1, dtype = ''quarter''\<rparr> = Inr ?s'"
    by code_simp
  from draw_note_line_wrap[OF h] have "y_origin_offset ?s' = y_origin_offset ?s + 500"
    by simp
  with h show ?thesis by simp
qed

text \<open>
  C4, as stated, fails: two whole notes accumulate 8.0 quarter units, which crosses the
  4.0 boundary, and the renderer wraps no line.
\<close>

theorem line_wrap_counterexample:
  "(case generate_visual_sheet
      [''lib/blank_staff.png'' \<mapsto> Picture, ''lib/whole.png'' \<mapsto> Picture,
       ''s.musicxml'' \<mapsto>
          Score [Note \<lparr>step = G, accidental = None, octave = Some 4\<rparr>
                      \<lparr>quarterLength = 4, dtype = ''whole''\<rparr>,
                 Note \<lparr>step = A, accidental = None, octave = Some 4\<rparr>
                      \<lparr>quarterLength = 4, dtype = ''whole''\<rparr>]]
      ''s.musicxml'' ''lib'' of
      Inl e \<Rightarrow> False
    | Inr (fs', s) \<Rightarrow>
        accumulated_duration s = 8 \<and> boundaries_crossed 8 = 1 \<and> line_wraps s = 0 \<and>
        line_wraps s \<noteq> boundaries_crossed (accumulated_duration s))"
  by code_simp

end
